theory Spec2Isabelle
  imports Complex_Main
begin

section \<open>JavaScript numbers and values\<close>

text \<open>
  The fare calculator works on JavaScript numbers. They are modelled as the real numbers
  together with \<open>NaN\<close>: arithmetic is exact (the rounding error of IEEE doubles, the
  infinities and the sign of zero are not modelled), and \<open>NaN\<close> is absorbing, compares
  false with everything and is falsy, as in the language.

  The model is an idealisation of the program, and the two differ where the rounding of
  doubles decides the outcome: an amount that lies on a rounding tie in exact arithmetic
  (17.775) may be computed just below it and be rounded down; \<open>d / 30 * 60\<close> may be
  computed just above an integer and its ceiling be one more; and for nearly antipodal
  points the haversine argument may be computed just above 1, which makes the distance
  \<open>NaN\<close>. The properties proved below are those that do not depend on these effects:
  they are stated for a distance that is a number, or for sample data on which the
  program computes a number.
\<close>

datatype jsnum = Num real | NaN

fun jadd :: "jsnum \<Rightarrow> jsnum \<Rightarrow> jsnum" where
  "jadd (Num x) (Num y) = Num (x + y)"
| "jadd _ _ = NaN"

fun jmul :: "jsnum \<Rightarrow> jsnum \<Rightarrow> jsnum" where
  "jmul (Num x) (Num y) = Num (x * y)"
| "jmul _ _ = NaN"

text \<open>Division is only ever applied to the non-zero literals 100 and 30 in this program;
  a zero divisor (an infinity or \<open>NaN\<close> in JavaScript) is mapped to \<open>NaN\<close>.\<close>

fun jdiv :: "jsnum \<Rightarrow> jsnum \<Rightarrow> jsnum" where
  "jdiv (Num x) (Num y) = (if y = 0 then NaN else Num (x / y))"
| "jdiv _ _ = NaN"

fun jlt :: "jsnum \<Rightarrow> jsnum \<Rightarrow> bool" where
  "jlt (Num x) (Num y) = (x < y)"
| "jlt _ _ = False"

fun jle :: "jsnum \<Rightarrow> jsnum \<Rightarrow> bool" where
  "jle (Num x) (Num y) = (x \<le> y)"
| "jle _ _ = False"

text \<open>\<open>Math.round\<close> rounds to the nearest integer, a tie going towards plus infinity;
  \<open>Math.ceil\<close> is the ceiling; \<open>Math.sqrt\<close> of a negative number is \<open>NaN\<close>.\<close>

fun math_round :: "jsnum \<Rightarrow> jsnum" where
  "math_round (Num x) = Num (of_int \<lfloor>x + 1 / 2\<rfloor>)"
| "math_round NaN = NaN"

fun math_ceil :: "jsnum \<Rightarrow> jsnum" where
  "math_ceil (Num x) = Num (of_int \<lceil>x\<rceil>)"
| "math_ceil NaN = NaN"

definition math_sqrt :: "real \<Rightarrow> jsnum" where
  "math_sqrt x = (if x < 0 then NaN else Num (sqrt x))"

definition atan2 :: "real \<Rightarrow> real \<Rightarrow> real" where
  "atan2 y x =
     (if 0 < x then arctan (y / x)
      else if x < 0 then (if 0 \<le> y then arctan (y / x) + pi else arctan (y / x) - pi)
      else if 0 < y then pi / 2
      else if y < 0 then - (pi / 2)
      else 0)"

fun math_atan2 :: "jsnum \<Rightarrow> jsnum \<Rightarrow> jsnum" where
  "math_atan2 (Num y) (Num x) = Num (atan2 y x)"
| "math_atan2 _ _ = NaN"

text \<open>
  The values a property read can yield here: a number, \<open>undefined\<close>, or an object
  (a function included). An object is truthy and converts to \<open>NaN\<close> in arithmetic.
\<close>

datatype jsval = JNumber real | JUndefined | JObject

fun truthy :: "jsval \<Rightarrow> bool" where
  "truthy (JNumber x) = (x \<noteq> 0)"
| "truthy JUndefined = False"
| "truthy JObject = True"

definition js_or :: "jsval \<Rightarrow> jsval \<Rightarrow> jsval" where
  "js_or a b = (if truthy a then a else b)"

fun to_number :: "jsval \<Rightarrow> jsnum" where
  "to_number (JNumber x) = Num x"
| "to_number JUndefined = NaN"
| "to_number JObject = NaN"

section \<open>The fare calculator\<close>

subsection \<open>calculateDistance\<close>

definition toRadians :: "real \<Rightarrow> real" where
  "toRadians degrees = degrees * (pi / 180)"

definition haversine_a :: "real \<Rightarrow> real \<Rightarrow> real \<Rightarrow> real \<Rightarrow> real" where
  "haversine_a lat1 lon1 lat2 lon2 =
     (let dLat = toRadians (lat2 - lat1);
          dLon = toRadians (lon2 - lon1)
      in sin (dLat / 2) * sin (dLat / 2) +
         cos (toRadians lat1) * cos (toRadians lat2) *
         sin (dLon / 2) * sin (dLon / 2))"

definition calculateDistance :: "real \<Rightarrow> real \<Rightarrow> real \<Rightarrow> real \<Rightarrow> jsnum" where
  "calculateDistance lat1 lon1 lat2 lon2 =
     (let R = 6371;
          a = haversine_a lat1 lon1 lat2 lon2;
          c = jmul (Num 2) (math_atan2 (math_sqrt a) (math_sqrt (1 - a)));
          distanceKm = jmul (Num R) c
      in jdiv (math_round (jmul distanceKm (Num 100))) (Num 100))"

subsection \<open>calculateFare\<close>

text \<open>
  \<open>process.env.FARE_PER_KM\<close> is read on every call. The parameter \<open>env\<close> is what
  \<open>parseFloat\<close> makes of it: a number, or \<open>NaN\<close> when the variable is unset or does
  not start with a number. \<open>parseFloat(...) || 15\<close> replaces the falsy values
  \<open>NaN\<close> and \<open>0\<close> by 15.
\<close>

fun farePerKm_of :: "jsnum \<Rightarrow> real" where
  "farePerKm_of (Num r) = (if r = 0 then 15 else r)"
| "farePerKm_of NaN = 15"

text \<open>
  \<open>rideTypeMultipliers\<close> is an object literal, so a read \<open>rideTypeMultipliers[rideType]\<close>
  finds the three own properties first and then the members inherited from
  \<open>Object.prototype\<close>, which are functions (or, for \<open>__proto__\<close>, the prototype
  object itself). Every other key reads as \<open>undefined\<close>.
\<close>

definition object_prototype_keys :: "string list" where
  "object_prototype_keys =
     [''constructor'', ''hasOwnProperty'', ''isPrototypeOf'', ''propertyIsEnumerable'',
      ''toLocaleString'', ''toString'', ''valueOf'', ''__proto__'',
      ''__defineGetter__'', ''__defineSetter__'', ''__lookupGetter__'', ''__lookupSetter__'']"

definition rideTypeMultipliers :: "string \<Rightarrow> jsval" where
  "rideTypeMultipliers k =
     (if k = ''economy'' then JNumber 1.0
      else if k = ''premium'' then JNumber 1.5
      else if k = ''luxury'' then JNumber 2.0
      else if k \<in> set object_prototype_keys then JObject
      else JUndefined)"

record fare_breakdown =
  baseFare :: jsnum
  gst :: jsnum
  totalFare :: jsnum
  distance :: jsnum
  farePerKm :: real
  rideType :: string

text \<open>A default parameter applies when the argument is \<open>undefined\<close> (here \<open>None\<close>).\<close>

definition default_rideType :: "string option \<Rightarrow> string" where
  "default_rideType rt = (case rt of None \<Rightarrow> ''economy'' | Some s \<Rightarrow> s)"

definition round2 :: "jsnum \<Rightarrow> jsnum" where
  "round2 x = jdiv (math_round (jmul x (Num 100))) (Num 100)"

definition calculateFare :: "jsnum \<Rightarrow> jsnum \<Rightarrow> string option \<Rightarrow> fare_breakdown" where
  "calculateFare env distanceKm rt =
     (let rideType = default_rideType rt;
          farePerKm = farePerKm_of env;
          baseFare = Num 50;
          minimumFare = Num 80;
          multiplier = js_or (rideTypeMultipliers rideType) (JNumber 1.0);
          calculatedFare = jadd baseFare (jmul (jmul distanceKm (Num farePerKm)) (to_number multiplier));
          calculatedFare = (if jlt calculatedFare minimumFare then minimumFare else calculatedFare);
          gst = jmul calculatedFare (Num 0.18);
          totalFare = jadd calculatedFare gst
      in \<lparr> baseFare = round2 calculatedFare,
           gst = round2 gst,
           totalFare = round2 totalFare,
           distance = distanceKm,
           farePerKm = farePerKm,
           rideType = rideType \<rparr>)"

subsection \<open>estimateFare\<close>

record coordinates =
  latitude :: real
  longitude :: real

record location =
  address :: string
  coords :: coordinates

record fare_estimate = fare_breakdown +
  estimatedTime :: jsnum
  pickup :: string
  drop :: string

definition estimateFare :: "jsnum \<Rightarrow> location \<Rightarrow> location \<Rightarrow> string option \<Rightarrow> fare_estimate" where
  "estimateFare env pickupL dropL rt =
     (let distanceKm = calculateDistance
                   (latitude (coords pickupL)) (longitude (coords pickupL))
                   (latitude (coords dropL)) (longitude (coords dropL));
          rideType = default_rideType rt;
          fareBreakdown = calculateFare env distanceKm (Some rideType);
          estimatedTime = math_ceil (jmul (jdiv distanceKm (Num 30)) (Num 60))
      in fare_breakdown.extend fareBreakdown
           (fare_estimate.fields estimatedTime (address pickupL) (address dropL)))"

text \<open>The two \<open>typeof\<close> tests of \<open>validateCoordinates\<close> hold by typing.\<close>

definition validateCoordinates :: "real \<Rightarrow> real \<Rightarrow> bool" where
  "validateCoordinates lat lon = (- 90 \<le> lat \<and> lat \<le> 90 \<and> - 180 \<le> lon \<and> lon \<le> 180)"

section \<open>The ride model (models/Ride.js)\<close>

datatype ride_status = Pending | Accepted | Started | Completed | Cancelled

fun status_name :: "ride_status \<Rightarrow> string" where
  "status_name Pending = ''pending''"
| "status_name Accepted = ''accepted''"
| "status_name Started = ''started''"
| "status_name Completed = ''completed''"
| "status_name Cancelled = ''cancelled''"

text \<open>Times are abstract clock readings; identifiers are natural numbers.\<close>

record history_entry =
  action :: string
  timestamp :: nat
  details :: string

record ride_fare =
  fare_baseFare :: jsnum
  fare_totalFare :: jsnum
  fare_currency :: string

record ride_rating =
  userRating :: "nat option"
  driverRating :: "nat option"

text \<open>
  The document as the schema declares it. The fields \<open>createdAt\<close> and \<open>updatedAt\<close>,
  which the library maintains by itself, are left out. The schema has no field for the
  ride type: the category of a booking is used for its first fare and then forgotten.
\<close>

record ride =
  ride_id :: nat
  userId :: nat
  driverId :: "nat option"
  status :: ride_status
  pickupLocation :: location
  dropLocation :: location
  originalDropLocation :: "location option"
  ride_distance :: jsnum
  estimatedDuration :: "jsnum option"
  fare :: ride_fare
  paymentStatus :: string
  paymentMethod :: string
  rideStartTime :: "nat option"
  rideEndTime :: "nat option"
  cancellationReason :: "string option"
  cancelledBy :: "string option"
  rating :: ride_rating
  history :: "history_entry list"
  ride_notes :: "string option"

text \<open>
  The two \<open>pre('save')\<close> hooks. The argument \<open>orig\<close> is the document as it was
  loaded, \<open>None\<close> for a new one (\<open>isNew\<close>); a path of a loaded document is modified
  when its value differs from the loaded one, and every path set by the constructor of
  a new document is modified.
\<close>

definition history_hook :: "nat \<Rightarrow> ride option \<Rightarrow> ride \<Rightarrow> ride" where
  "history_hook now orig r =
     (case orig of
        None \<Rightarrow>
          r\<lparr>history := history r @
               [\<lparr>action = ''created'', timestamp = now, details = ''Ride request created''\<rparr>]\<rparr>
      | Some old \<Rightarrow>
          if status r \<noteq> status old
          then r\<lparr>history := history r @
                 [\<lparr>action = status_name (status r), timestamp = now,
                   details = ''Ride status changed to '' @ status_name (status r)\<rparr>]\<rparr>
          else r)"

fun num_truthy :: "jsnum \<Rightarrow> bool" where
  "num_truthy (Num x) = (x \<noteq> 0)"
| "num_truthy NaN = False"

definition distance_modified :: "ride option \<Rightarrow> ride \<Rightarrow> bool" where
  "distance_modified orig r =
     (case orig of None \<Rightarrow> True | Some old \<Rightarrow> ride_distance r \<noteq> ride_distance old)"

definition duration_hook :: "ride option \<Rightarrow> ride \<Rightarrow> ride" where
  "duration_hook orig r =
     (if distance_modified orig r \<and> num_truthy (ride_distance r)
      then r\<lparr>estimatedDuration :=
               Some (math_ceil (jmul (jdiv (ride_distance r) (Num 30)) (Num 60)))\<rparr>
      else r)"

definition run_hooks :: "nat \<Rightarrow> ride option \<Rightarrow> ride \<Rightarrow> ride" where
  "run_hooks now orig r = duration_hook orig (history_hook now orig r)"

text \<open>
  Validation runs before the hooks and makes \<open>save\<close> throw. Of the schema's
  constraints, a request that passed the route's validators can still break two: the
  \<open>Number\<close> paths \<open>distance\<close>, \<open>fare.baseFare\<close> and \<open>fare.totalFare\<close> do not
  accept \<open>NaN\<close> (the cast fails), and \<open>notes\<close> has \<open>maxlength: 500\<close>, which the
  booking route does not check. A loaded document is validated on its modified paths
  only.
\<close>

definition validate_new :: "ride \<Rightarrow> bool" where
  "validate_new r =
     (ride_distance r \<noteq> NaN \<and>
      fare_baseFare (fare r) \<noteq> NaN \<and>
      fare_totalFare (fare r) \<noteq> NaN \<and>
      (case ride_notes r of None \<Rightarrow> True | Some n \<Rightarrow> length n \<le> 500))"

definition validate_modified :: "ride \<Rightarrow> ride \<Rightarrow> bool" where
  "validate_modified old r =
     ((ride_distance r \<noteq> ride_distance old \<longrightarrow> ride_distance r \<noteq> NaN) \<and>
      (fare_baseFare (fare r) \<noteq> fare_baseFare (fare old) \<longrightarrow>
         fare_baseFare (fare r) \<noteq> NaN) \<and>
      (fare_totalFare (fare r) \<noteq> fare_totalFare (fare old) \<longrightarrow>
         fare_totalFare (fare r) \<noteq> NaN))"

datatype error =
    ValidationFailed
  | ActiveRideConflict nat
  | NotFound
  | ServerError

definition save_new :: "nat \<Rightarrow> ride \<Rightarrow> error + ride" where
  "save_new now r = (if validate_new r then Inr (run_hooks now None r) else Inl ServerError)"

definition save_loaded :: "nat \<Rightarrow> ride \<Rightarrow> ride \<Rightarrow> error + ride" where
  "save_loaded now old r =
     (if validate_modified old r then Inr (run_hooks now (Some old) r) else Inl ServerError)"

text \<open>The collection is the list of its documents, in insertion order; saving a loaded
  document replaces the stored one with the same \<open>_id\<close>.\<close>

definition write_back :: "ride \<Rightarrow> ride list \<Rightarrow> ride list" where
  "write_back r store = map (\<lambda>x. if ride_id x = ride_id r then r else x) store"

section \<open>The ride routes (routes/rides.js)\<close>

text \<open>Authentication happens in middleware outside these sources; \<open>uid\<close> is the
  identifier of the authenticated rider (\<open>req.user._id\<close>).\<close>

record book_request =
  req_pickupLocation :: location
  req_dropLocation :: location
  req_rideType :: "string option"
  req_notes :: "string option"

definition valid_location :: "location \<Rightarrow> bool" where
  "valid_location l =
     (address l \<noteq> [] \<and>
      - 90 \<le> latitude (coords l) \<and> latitude (coords l) \<le> 90 \<and>
      - 180 \<le> longitude (coords l) \<and> longitude (coords l) \<le> 180)"

definition validateRideBooking :: "book_request \<Rightarrow> bool" where
  "validateRideBooking req =
     (valid_location (req_pickupLocation req) \<and> valid_location (req_dropLocation req) \<and>
      (case req_rideType req of
         None \<Rightarrow> True
       | Some t \<Rightarrow> t \<in> set [''economy'', ''premium'', ''luxury'']))"

definition validateDestinationUpdate :: "location \<Rightarrow> bool" where
  "validateDestinationUpdate l = valid_location l"

definition is_active :: "ride \<Rightarrow> bool" where
  "is_active r = (status r \<in> set [Pending, Accepted, Started])"

definition location_distance :: "location \<Rightarrow> location \<Rightarrow> jsnum" where
  "location_distance p q =
     calculateDistance (latitude (coords p)) (longitude (coords p))
                       (latitude (coords q)) (longitude (coords q))"

text \<open>\<open>new Ride({...})\<close>: the fields the route passes, the schema's defaults elsewhere.\<close>

definition new_ride ::
  "nat \<Rightarrow> nat \<Rightarrow> location \<Rightarrow> location \<Rightarrow> jsnum \<Rightarrow> fare_estimate \<Rightarrow> string option \<Rightarrow> ride" where
  "new_ride new_id uid pickupL dropL distanceKm fareEstimate ns =
     \<lparr> ride_id = new_id,
       userId = uid,
       driverId = None,
       status = Pending,
       pickupLocation = pickupL,
       dropLocation = dropL,
       originalDropLocation = Some dropL,
       ride_distance = distanceKm,
       estimatedDuration = None,
       fare = \<lparr> fare_baseFare = baseFare fareEstimate,
                fare_totalFare = totalFare fareEstimate,
                fare_currency = ''INR'' \<rparr>,
       paymentStatus = ''pending'',
       paymentMethod = ''cash'',
       rideStartTime = None,
       rideEndTime = None,
       cancellationReason = None,
       cancelledBy = None,
       rating = \<lparr> userRating = None, driverRating = None \<rparr>,
       history = [],
       ride_notes = ns \<rparr>"

text \<open>The body of \<open>POST /rides/book\<close> after the active-ride check: the document built
  from the request, before it is saved.\<close>

definition build_ride :: "jsnum \<Rightarrow> nat \<Rightarrow> nat \<Rightarrow> book_request \<Rightarrow> ride \<times> fare_estimate" where
  "build_ride env new_id uid req =
     (let rt = default_rideType (req_rideType req);
          distanceKm = location_distance (req_pickupLocation req) (req_dropLocation req);
          fareEstimate = estimateFare env (req_pickupLocation req) (req_dropLocation req) (Some rt)
      in (new_ride new_id uid (req_pickupLocation req) (req_dropLocation req)
            distanceKm fareEstimate (req_notes req),
          fareEstimate))"

text \<open>
  \<open>POST /rides/book\<close>. The result is the response (400, 409 or 500 as an error, 201 with
  the ride and the fare breakdown) and the collection afterwards. \<open>new_id\<close> is the
  identifier the database driver generates for the document.
\<close>

definition book ::
  "jsnum \<Rightarrow> nat \<Rightarrow> nat \<Rightarrow> ride list \<Rightarrow> nat \<Rightarrow> book_request
     \<Rightarrow> (error + ride \<times> fare_estimate) \<times> ride list" where
  "book env now new_id store uid req =
     (if \<not> validateRideBooking req then (Inl ValidationFailed, store)
      else case find (\<lambda>r. userId r = uid \<and> is_active r) store of
        Some activeRide \<Rightarrow> (Inl (ActiveRideConflict (ride_id activeRide)), store)
      | None \<Rightarrow>
          (case build_ride env new_id uid req of
             (r, fareEstimate) \<Rightarrow>
               (case save_new now r of
                  Inl e \<Rightarrow> (Inl ServerError, store)
                | Inr saved \<Rightarrow> (Inr (saved, fareEstimate), store @ [saved]))))"

text \<open>The mutation block of \<open>PUT /rides/:id/update-destination\<close>: the document as the
  route hands it to \<open>save\<close>, and the new quote. \<open>estimateFare\<close> is called without a
  ride type.\<close>

definition destination_mutation ::
  "jsnum \<Rightarrow> nat \<Rightarrow> location \<Rightarrow> ride \<Rightarrow> ride \<times> fare_estimate" where
  "destination_mutation env now dropL r =
     (let newDistance = location_distance (pickupLocation r) dropL;
          newFareEstimate = estimateFare env (pickupLocation r) dropL None;
          r' = r\<lparr> dropLocation := dropL,
                 ride_distance := newDistance,
                 fare := (fare r)\<lparr> fare_baseFare := baseFare newFareEstimate,
                                   fare_totalFare := totalFare newFareEstimate \<rparr>,
                 history := history r @
                   [\<lparr>action = ''destination_updated'', timestamp = now,
                     details = ''Destination updated to '' @ address dropL\<rparr>] \<rparr>
      in (r', newFareEstimate))"

text \<open>What a successful update answers: the document after the hooks, and the quote.\<close>

definition update_ride :: "jsnum \<Rightarrow> nat \<Rightarrow> location \<Rightarrow> ride \<Rightarrow> ride \<times> fare_estimate" where
  "update_ride env now dropL r =
     (case destination_mutation env now dropL r of
        (r', newFareEstimate) \<Rightarrow> (run_hooks now (Some r) r', newFareEstimate))"

definition updateDestination ::
  "jsnum \<Rightarrow> nat \<Rightarrow> ride list \<Rightarrow> nat \<Rightarrow> nat \<Rightarrow> location
     \<Rightarrow> (error + ride \<times> fare_estimate) \<times> ride list" where
  "updateDestination env now store rid uid dropL =
     (if \<not> validateDestinationUpdate dropL then (Inl ValidationFailed, store)
      else case find (\<lambda>r. ride_id r = rid \<and> userId r = uid \<and>
                          status r \<in> set [Accepted, Started]) store of
        None \<Rightarrow> (Inl NotFound, store)
      | Some r \<Rightarrow>
          (case destination_mutation env now dropL r of
             (r', newFareEstimate) \<Rightarrow>
               (case save_loaded now r r' of
                  Inl e \<Rightarrow> (Inl ServerError, store)
                | Inr saved \<Rightarrow> (Inr (saved, newFareEstimate), write_back saved store))))"

text \<open>The mutation block of \<open>POST /rides/:id/cancel\<close>, and the document after the hooks
  that a successful cancellation answers. The reason is a string or absent;
  \<open>reason || 'Cancelled by user'\<close> also replaces the empty string.\<close>

definition reason_or_default :: "string option \<Rightarrow> string" where
  "reason_or_default reason =
     (case reason of None \<Rightarrow> ''Cancelled by user''
      | Some s \<Rightarrow> if s = [] then ''Cancelled by user'' else s)"

definition cancel_mutation :: "nat \<Rightarrow> string option \<Rightarrow> ride \<Rightarrow> ride" where
  "cancel_mutation now reason r =
     (let r' = r\<lparr> status := Cancelled,
                 cancellationReason := Some (reason_or_default reason),
                 cancelledBy := Some ''user'' \<rparr>
      in r'\<lparr> history := history r' @
                [\<lparr>action = ''cancelled'', timestamp = now,
                  details = reason_or_default reason\<rparr>] \<rparr>)"

definition cancel_ride :: "nat \<Rightarrow> string option \<Rightarrow> ride \<Rightarrow> ride" where
  "cancel_ride now reason r = run_hooks now (Some r) (cancel_mutation now reason r)"

definition cancel ::
  "nat \<Rightarrow> ride list \<Rightarrow> nat \<Rightarrow> nat \<Rightarrow> string option \<Rightarrow> (error + ride) \<times> ride list" where
  "cancel now store rid uid reason =
     (case find (\<lambda>r. ride_id r = rid \<and> userId r = uid \<and>
                     status r \<in> set [Pending, Accepted]) store of
        None \<Rightarrow> (Inl NotFound, store)
      | Some r \<Rightarrow>
          (case save_loaded now r (cancel_mutation now reason r) of
             Inl e \<Rightarrow> (Inl ServerError, store)
           | Inr saved \<Rightarrow> (Inr saved, write_back saved store)))"

section \<open>Ride life cycle\<close>

text \<open>
  Modelled from the spec: the externally driven transitions (accepted, started,
  completed) of its section 4.2. No route of these sources performs them; whatever does
  assigns \<open>status\<close> and saves the document, so the pre-save hooks of the model run.
  No \<open>Number\<close> path is assigned, so the validation of the modified paths passes.
\<close>

definition set_status :: "nat \<Rightarrow> ride_status \<Rightarrow> ride \<Rightarrow> ride" where
  "set_status now s r = run_hooks now (Some r) (r\<lparr>status := s\<rparr>)"

text \<open>
  What can happen to one ride after its creation: its owner calls the two mutating
  routes, with the ride as the only document of the collection, or its status is driven
  from outside. A rejected request leaves the ride as it is. Each command carries the
  time at which it is served.
\<close>

datatype command =
    Cancel "string option"
  | UpdateDestination location
  | Transition ride_status

fun apply_command :: "jsnum \<Rightarrow> ride \<Rightarrow> nat \<times> command \<Rightarrow> ride" where
  "apply_command env r (now, Cancel reason) =
     (case fst (cancel now [r] (ride_id r) (userId r) reason) of
        Inl e \<Rightarrow> r | Inr saved \<Rightarrow> saved)"
| "apply_command env r (now, UpdateDestination dropL) =
     (case fst (updateDestination env now [r] (ride_id r) (userId r) dropL) of
        Inl e \<Rightarrow> r | Inr (saved, f) \<Rightarrow> saved)"
| "apply_command env r (now, Transition s) = set_status now s r"

definition run_commands :: "jsnum \<Rightarrow> ride \<Rightarrow> (nat \<times> command) list \<Rightarrow> ride" where
  "run_commands env r cs = foldl (apply_command env) r cs"

text \<open>At most one ride of each rider is active: the riders of the active rides are
  pairwise different.\<close>

definition one_active_per_rider :: "ride list \<Rightarrow> bool" where
  "one_active_per_rider store = distinct (map userId (filter is_active store))"

section \<open>The fare formula in the words of the specification\<close>

text \<open>The fixed table of category multipliers and the adjusted fare
  \<open>max (baseFareConstant + d * farePerKmRate * multiplier) minimumFareConstant\<close>.\<close>

definition category_multiplier :: "string \<Rightarrow> real option" where
  "category_multiplier = map_of [(''economy'', 1.0), (''premium'', 1.5), (''luxury'', 2.0)]"

definition adjusted_fare :: "real \<Rightarrow> real \<Rightarrow> real \<Rightarrow> real" where
  "adjusted_fare d rate m = max (50 + d * rate * m) 80"

text \<open>What \<open>Math.round(x * 100) / 100\<close> computes on a number.\<close>

definition round2_real :: "real \<Rightarrow> real" where
  "round2_real x = of_int \<lfloor>x * 100 + 1 / 2\<rfloor> / 100"

section \<open>Sample data\<close>

definition origin :: location where
  "origin = \<lparr> address = ''Equator at Greenwich'',
              coords = \<lparr> latitude = 0, longitude = 0 \<rparr> \<rparr>"

definition quarter_turn :: location where
  "quarter_turn = \<lparr> address = ''Equator at 90 East'',
                    coords = \<lparr> latitude = 0, longitude = 90 \<rparr> \<rparr>"

definition north_pole :: location where
  "north_pole = \<lparr> address = ''North Pole'',
                  coords = \<lparr> latitude = 90, longitude = 0 \<rparr> \<rparr>"

text \<open>A luxury booking by rider 7, served at time 10 with identifier 1 while
  \<open>FARE_PER_KM\<close> is unset; the ride it creates; the same ride once a driver has
  accepted it at time 11.\<close>

definition luxury_request :: book_request where
  "luxury_request = \<lparr> req_pickupLocation = origin, req_dropLocation = quarter_turn,
                       req_rideType = Some ''luxury'', req_notes = None \<rparr>"

definition booked_luxury :: ride where
  "booked_luxury = run_hooks 10 None (fst (build_ride NaN 1 7 luxury_request))"

definition accepted_luxury :: ride where
  "accepted_luxury = set_status 11 Accepted booked_luxury"

text \<open>A pending ride as the collection holds it after an economy booking from Bandra to
  Andheri: 1.98 km, the minimum fare of 80 and 94.4 with tax, 4 minutes.\<close>

definition bandra :: location where
  "bandra = \<lparr> address = ''Bandra'',
              coords = \<lparr> latitude = 19.0760, longitude = 72.8777 \<rparr> \<rparr>"

definition andheri :: location where
  "andheri = \<lparr> address = ''Andheri'',
               coords = \<lparr> latitude = 19.0896, longitude = 72.8656 \<rparr> \<rparr>"

definition pending_ride :: ride where
  "pending_ride =
     \<lparr> ride_id = 1,
       userId = 7,
       driverId = None,
       status = Pending,
       pickupLocation = bandra,
       dropLocation = andheri,
       originalDropLocation = Some andheri,
       ride_distance = Num 1.98,
       estimatedDuration = Some (Num 4),
       fare = \<lparr> fare_baseFare = Num 80, fare_totalFare = Num 94.4,
                fare_currency = ''INR'' \<rparr>,
       paymentStatus = ''pending'',
       paymentMethod = ''cash'',
       rideStartTime = None,
       rideEndTime = None,
       cancellationReason = None,
       cancelledBy = None,
       rating = \<lparr> userRating = None, driverRating = None \<rparr>,
       history = [\<lparr>action = ''created'', timestamp = 10, details = ''Ride request created''\<rparr>],
       ride_notes = None \<rparr>"

section \<open>Properties of the distance\<close>

lemma toRadians_diff: "toRadians (x - y) = toRadians x - toRadians y"
  unfolding toRadians_def by (rule left_diff_distrib)

lemma toRadians_range:
  assumes "- 90 \<le> x" "x \<le> 90"
  shows "- (pi / 2) \<le> toRadians x" "toRadians x \<le> pi / 2"
proof -
  have "- 90 * (pi / 180) \<le> x * (pi / 180)"
    using assms(1) by (intro mult_right_mono) simp_all
  then show "- (pi / 2) \<le> toRadians x" by (simp add: toRadians_def)
  have "x * (pi / 180) \<le> 90 * (pi / 180)"
    using assms(2) by (intro mult_right_mono) simp_all
  then show "toRadians x \<le> pi / 2" by (simp add: toRadians_def)
qed

lemma haversine_a_nonneg:
  assumes "- 90 \<le> lat1" "lat1 \<le> 90" "- 90 \<le> lat2" "lat2 \<le> 90"
  shows "0 \<le> haversine_a lat1 lon1 lat2 lon2"
proof -
  have c1: "0 \<le> cos (toRadians lat1)" using assms
    by (intro cos_ge_zero toRadians_range)
  have c2: "0 \<le> cos (toRadians lat2)" using assms
    by (intro cos_ge_zero toRadians_range)
  have "0 \<le> cos (toRadians lat1) * cos (toRadians lat2) * (sin (toRadians (lon2 - lon1) / 2) * sin (toRadians (lon2 - lon1) / 2))"
    by (rule mult_nonneg_nonneg [OF mult_nonneg_nonneg [OF c1 c2] zero_le_square])
  then show ?thesis
    unfolding haversine_a_def Let_def by (simp add: mult.assoc)
qed

lemma haversine_a_le_one:
  assumes "- 90 \<le> lat1" "lat1 \<le> 90" "- 90 \<le> lat2" "lat2 \<le> 90"
  shows "haversine_a lat1 lon1 lat2 lon2 \<le> 1"
proof -
  define p where "p = toRadians lat1"
  define q where "q = toRadians lat2"
  define s where "s = sin (toRadians (lon2 - lon1) / 2)"
  have c1: "0 \<le> cos p" using assms unfolding p_def
    by (intro cos_ge_zero toRadians_range)
  have c2: "0 \<le> cos q" using assms unfolding q_def
    by (intro cos_ge_zero toRadians_range)
  have s1: "s * s \<le> 1"
    using abs_sin_le_one [of "toRadians (lon2 - lon1) / 2"] unfolding s_def
    by (metis abs_mult_self_eq mult_le_one abs_ge_zero abs_mult)
  have d: "toRadians (lat2 - lat1) / 2 = (q - p) / 2"
    by (simp add: p_def q_def toRadians_diff)
  have "2 * ((q - p) / 2) = q - p" by simp
  then have "cos (q - p) = 1 - 2 * (sin ((q - p) / 2))\<^sup>2"
    using cos_double_sin [of "(q - p) / 2"] by (simp only:)
  then have half: "sin ((q - p) / 2) * sin ((q - p) / 2) = (1 - cos (q - p)) / 2"
    by (simp add: power2_eq_square)
  have "haversine_a lat1 lon1 lat2 lon2 =
          sin (toRadians (lat2 - lat1) / 2) * sin (toRadians (lat2 - lat1) / 2) +
          cos p * cos q * (s * s)"
    by (simp add: haversine_a_def Let_def p_def q_def s_def mult.assoc)
  also have "\<dots> = (1 - cos (q - p)) / 2 + cos p * cos q * (s * s)"
    by (simp only: d half)
  also have "\<dots> \<le> (1 - cos (q - p)) / 2 + cos p * cos q * 1"
    using c1 c2 s1 by (intro add_left_mono mult_left_mono mult_nonneg_nonneg)
  also have "\<dots> = (1 + cos (q + p)) / 2"
    by (simp add: cos_diff cos_add field_simps)
  also have "\<dots> \<le> 1" using cos_le_one [of "q + p"] by simp
  finally show ?thesis .
qed

lemma atan2_nonneg: "0 \<le> y \<Longrightarrow> 0 \<le> x \<Longrightarrow> 0 \<le> atan2 y x"
  by (auto simp: atan2_def)

lemma calculateDistance_num:
  assumes "0 \<le> haversine_a lat1 lon1 lat2 lon2" "haversine_a lat1 lon1 lat2 lon2 \<le> 1"
  shows "\<exists>d. calculateDistance lat1 lon1 lat2 lon2 = Num d \<and> 0 \<le> d"
proof -
  let ?a = "haversine_a lat1 lon1 lat2 lon2"
  let ?c = "2 * atan2 (sqrt ?a) (sqrt (1 - ?a))"
  have c: "0 \<le> ?c" using assms by (simp add: atan2_nonneg)
  have eq: "calculateDistance lat1 lon1 lat2 lon2 = Num (of_int \<lfloor>6371 * ?c * 100 + 1 / 2\<rfloor> / 100)"
    using assms by (simp add: calculateDistance_def math_sqrt_def Let_def)
  have "0 \<le> 6371 * ?c * 100 + 1 / 2" using c by simp
  then have "0 \<le> \<lfloor>6371 * ?c * 100 + 1 / 2\<rfloor>" by simp
  then have "(0::real) \<le> of_int \<lfloor>6371 * ?c * 100 + 1 / 2\<rfloor> / 100" by simp
  with eq show ?thesis by blast
qed

lemma haversine_quarter: "haversine_a 0 0 90 0 = 1 / 2"
proof -
  have "sin (pi / 4) * sin (pi / 4) = (1::real) / 2"
    by (simp add: sin_45)
  then show ?thesis
    by (simp add: haversine_a_def Let_def toRadians_def)
qed

lemma distance_origin_north_pole:
  "\<exists>d. location_distance origin north_pole = Num d \<and> 6371 \<le> d"
proof -
  have at: "atan2 (sqrt (1 / 2)) (sqrt (1 / 2)) = pi / 4"
    by (simp add: atan2_def arctan_one)
  let ?k = "\<lfloor>6371 * (2 * (pi / 4)) * 100 + 1 / 2\<rfloor>"
  have eq: "location_distance origin north_pole = Num (of_int ?k / 100)"
    by (simp add: location_distance_def origin_def north_pole_def calculateDistance_def
          haversine_quarter math_sqrt_def Let_def at del: real_sqrt_divide)
  have "(637100::real) \<le> 6371 * (2 * (pi / 4)) * 100 + 1 / 2"
    using pi_ge_two by simp
  then have "\<lfloor>637100::real\<rfloor> \<le> ?k" by (rule floor_mono)
  then have "637100 \<le> ?k" by simp
  then have "(6371::real) \<le> of_int ?k / 100" by simp
  with eq show ?thesis by blast
qed

lemma haversine_quarter_east: "haversine_a 0 0 0 90 = 1 / 2"
proof -
  have "sin (pi / 4) * sin (pi / 4) = (1::real) / 2"
    by (simp add: sin_45)
  then show ?thesis
    by (simp add: haversine_a_def Let_def toRadians_def)
qed

lemma distance_origin_quarter_turn:
  "\<exists>d. location_distance origin quarter_turn = Num d \<and> 6371 \<le> d"
proof -
  have at: "atan2 (sqrt (1 / 2)) (sqrt (1 / 2)) = pi / 4"
    by (simp add: atan2_def arctan_one)
  let ?k = "\<lfloor>6371 * (2 * (pi / 4)) * 100 + 1 / 2\<rfloor>"
  have eq: "location_distance origin quarter_turn = Num (of_int ?k / 100)"
    by (simp add: location_distance_def origin_def quarter_turn_def calculateDistance_def
          haversine_quarter_east math_sqrt_def Let_def at del: real_sqrt_divide)
  have "(637100::real) \<le> 6371 * (2 * (pi / 4)) * 100 + 1 / 2"
    using pi_ge_two by simp
  then have "\<lfloor>637100::real\<rfloor> \<le> ?k" by (rule floor_mono)
  then have "637100 \<le> ?k" by simp
  then have "(6371::real) \<le> of_int ?k / 100" by simp
  with eq show ?thesis by blast
qed

section \<open>Properties of the fare\<close>

lemma default_rideType_simps [simp]:
  "default_rideType (Some s) = s" "default_rideType None = ''economy''"
  by (simp_all add: default_rideType_def)

lemma round2_Num: "round2 (Num x) = Num (round2_real x)"
  by (simp add: round2_def round2_real_def)

lemma round2_real_mono: "x \<le> y \<Longrightarrow> round2_real x \<le> round2_real y"
  unfolding round2_real_def
  by (intro divide_right_mono of_int_le_iff [THEN iffD2] floor_mono) simp_all

lemma category_multiplier_cases:
  "category_multiplier c = Some m \<Longrightarrow>
     (c = ''economy'' \<and> m = 1) \<or> (c = ''premium'' \<and> m = 3 / 2) \<or> (c = ''luxury'' \<and> m = 2)"
  by (auto simp: category_multiplier_def split: if_splits)

lemma multiplier_known:
  "category_multiplier c = Some m \<Longrightarrow>
     to_number (js_or (rideTypeMultipliers c) (JNumber 1.0)) = Num m"
  by (auto dest!: category_multiplier_cases simp: rideTypeMultipliers_def js_or_def)

lemma calculateFare_numeric:
  assumes "to_number (js_or (rideTypeMultipliers (default_rideType rt)) (JNumber 1.0)) = Num m"
  shows "calculateFare env (Num d) rt =
           \<lparr> baseFare = Num (round2_real (adjusted_fare d (farePerKm_of env) m)),
             gst = Num (round2_real (adjusted_fare d (farePerKm_of env) m * 0.18)),
             totalFare = Num (round2_real (adjusted_fare d (farePerKm_of env) m +
                                           adjusted_fare d (farePerKm_of env) m * 0.18)),
             distance = Num d,
             farePerKm = farePerKm_of env,
             rideType = default_rideType rt \<rparr>"
proof -
  have key: "(if jlt (jadd (Num 50) (jmul (jmul (Num d) (Num (farePerKm_of env))) (Num m))) (Num 80)
              then Num 80
              else jadd (Num 50) (jmul (jmul (Num d) (Num (farePerKm_of env))) (Num m)))
             = Num (adjusted_fare d (farePerKm_of env) m)"
    by (simp add: adjusted_fare_def max_def)
  show ?thesis
    unfolding calculateFare_def Let_def assms key
    by (simp only: jmul.simps jadd.simps round2_Num)
qed

lemma adjusted_fare_mono_mult:
  assumes "m1 \<le> m2" "0 \<le> m1"
  shows "adjusted_fare d r m1 \<le> adjusted_fare d r m2"
proof (cases "0 \<le> d * r")
  case True
  then have "d * r * m1 \<le> d * r * m2" using assms by (intro mult_left_mono)
  then show ?thesis by (simp add: adjusted_fare_def max_def)
next
  case False
  then have "d * r * m1 \<le> 0" "d * r * m2 \<le> 0" using assms
    by (simp_all add: mult_nonpos_nonneg)
  then show ?thesis by (simp add: adjusted_fare_def max_def)
qed

lemma adjusted_fare_mono_dist:
  assumes "0 \<le> d1" "d1 \<le> d2" "0 \<le> m"
  shows "adjusted_fare d1 r m \<le> adjusted_fare d2 r m"
proof (cases "0 \<le> r")
  case True
  with assms have "d1 * r \<le> d2 * r" by (intro mult_right_mono)
  from this assms(3) have "d1 * r * m \<le> d2 * r * m" by (rule mult_right_mono)
  then show ?thesis by (simp add: adjusted_fare_def max_def)
next
  case False
  then have "d1 * r \<le> 0" "d2 * r \<le> 0" using assms
    by (simp_all add: mult_nonneg_nonpos)
  then have "d1 * r * m \<le> 0" "d2 * r * m \<le> 0" using assms
    by (simp_all add: mult_nonpos_nonneg)
  then show ?thesis by (simp add: adjusted_fare_def max_def)
qed

lemma total_mono: "a \<le> b \<Longrightarrow> round2_real (a + a * 0.18) \<le> round2_real (b + b * 0.18)"
  by (intro round2_real_mono) simp

text \<open>In exact arithmetic the haversine argument of valid coordinates lies between 0 and
  1 and the distance is a number. In doubles the argument can exceed 1 for nearly
  antipodal points; the lemma is used below only for the sample pair of the origin and
  Bandra, which are not.\<close>

lemma location_distance_num:
  assumes "validateCoordinates (latitude (coords p)) (longitude (coords p))"
      and "validateCoordinates (latitude (coords q)) (longitude (coords q))"
  shows "\<exists>d. location_distance p q = Num d \<and> 0 \<le> d"
  unfolding location_distance_def
  using assms
  by (intro calculateDistance_num haversine_a_nonneg haversine_a_le_one)
     (simp_all add: validateCoordinates_def)

lemma estimateFare_fields:
  "estimateFare env p q rt =
     fare_breakdown.extend
       (calculateFare env (location_distance p q) (Some (default_rideType rt)))
       (fare_estimate.fields
          (math_ceil (jmul (jdiv (location_distance p q) (Num 30)) (Num 60)))
          (address p) (address q))"
  by (simp add: estimateFare_def location_distance_def Let_def)

lemma estimateFare_sel:
  "baseFare (estimateFare env p q rt) =
     baseFare (calculateFare env (location_distance p q) (Some (default_rideType rt)))"
  "gst (estimateFare env p q rt) =
     gst (calculateFare env (location_distance p q) (Some (default_rideType rt)))"
  "totalFare (estimateFare env p q rt) =
     totalFare (calculateFare env (location_distance p q) (Some (default_rideType rt)))"
  "distance (estimateFare env p q rt) =
     distance (calculateFare env (location_distance p q) (Some (default_rideType rt)))"
  "farePerKm (estimateFare env p q rt) =
     farePerKm (calculateFare env (location_distance p q) (Some (default_rideType rt)))"
  "rideType (estimateFare env p q rt) =
     rideType (calculateFare env (location_distance p q) (Some (default_rideType rt)))"
  "estimatedTime (estimateFare env p q rt) =
     math_ceil (jmul (jdiv (location_distance p q) (Num 30)) (Num 60))"
  by (simp_all add: estimateFare_fields fare_breakdown.defs fare_estimate.defs)

lemma totalFare_numeric:
  assumes "to_number (js_or (rideTypeMultipliers (default_rideType rt)) (JNumber 1.0)) = Num m"
  shows "totalFare (calculateFare env (Num d) rt) =
           Num (round2_real (adjusted_fare d (farePerKm_of env) m +
                             adjusted_fare d (farePerKm_of env) m * 0.18))"
  by (simp only: calculateFare_numeric [OF assms] fare_breakdown.select_convs)

lemma totalFare_le:
  assumes "category_multiplier c1 = Some m1" and "category_multiplier c2 = Some m2"
      and "adjusted_fare d1 (farePerKm_of env) m1 \<le> adjusted_fare d2 (farePerKm_of env) m2"
  shows "jle (totalFare (calculateFare env (Num d1) (Some c1)))
             (totalFare (calculateFare env (Num d2) (Some c2)))"
proof -
  have m: "to_number (js_or (rideTypeMultipliers (default_rideType (Some c))) (JNumber 1.0)) = Num k"
    if "category_multiplier c = Some k" for c k
    using multiplier_known [OF that] by (simp add: default_rideType_def)
  show ?thesis
    unfolding totalFare_numeric [OF m [OF assms(1)]] totalFare_numeric [OF m [OF assms(2)]]
    using total_mono [OF assms(3)] by (simp only: jle.simps)
qed

text \<open>
  Claim C7. For a fixed distance and a fixed rate the total fares are ordered by
  category: economy at most premium at most luxury. This holds for every distance that
  is a number, and so for every pickup and drop whose distance is a number.
\<close>

theorem fare_category_order:
  "jle (totalFare (calculateFare env (Num d) (Some ''economy'')))
       (totalFare (calculateFare env (Num d) (Some ''premium''))) \<and>
   jle (totalFare (calculateFare env (Num d) (Some ''premium'')))
       (totalFare (calculateFare env (Num d) (Some ''luxury''))) \<and>
   (location_distance p q \<noteq> NaN \<longrightarrow>
      jle (totalFare (estimateFare env p q (Some ''economy'')))
          (totalFare (estimateFare env p q (Some ''premium''))) \<and>
      jle (totalFare (estimateFare env p q (Some ''premium'')))
          (totalFare (estimateFare env p q (Some ''luxury''))))"
proof -
  have e: "category_multiplier ''economy'' = Some 1"
   and p: "category_multiplier ''premium'' = Some (3 / 2)"
   and l: "category_multiplier ''luxury'' = Some 2"
    by (simp_all add: category_multiplier_def)
  have order: "jle (totalFare (calculateFare env (Num x) (Some ''economy'')))
                   (totalFare (calculateFare env (Num x) (Some ''premium''))) \<and>
               jle (totalFare (calculateFare env (Num x) (Some ''premium'')))
                   (totalFare (calculateFare env (Num x) (Some ''luxury'')))" for x
    by (intro conjI totalFare_le [OF e p] totalFare_le [OF p l] adjusted_fare_mono_mult)
       simp_all
  show ?thesis
  proof (intro conjI impI)
    assume "location_distance p q \<noteq> NaN"
    then obtain x where x: "location_distance p q = Num x"
      by (cases "location_distance p q") simp_all
    show "jle (totalFare (estimateFare env p q (Some ''economy'')))
              (totalFare (estimateFare env p q (Some ''premium'')))"
      using order [of x] by (simp add: estimateFare_sel x)
    show "jle (totalFare (estimateFare env p q (Some ''premium'')))
              (totalFare (estimateFare env p q (Some ''luxury'')))"
      using order [of x] by (simp add: estimateFare_sel x)
  qed (use order [of d] in simp_all)
qed

theorem fare_category_order_witness:
  "location_distance origin quarter_turn \<noteq> NaN \<and>
   jle (totalFare (estimateFare (Num 15) origin quarter_turn (Some ''economy'')))
       (totalFare (estimateFare (Num 15) origin quarter_turn (Some ''premium''))) \<and>
   jle (totalFare (estimateFare (Num 15) origin quarter_turn (Some ''premium'')))
       (totalFare (estimateFare (Num 15) origin quarter_turn (Some ''luxury'')))"
proof -
  have v: "location_distance origin quarter_turn \<noteq> NaN"
    using distance_origin_quarter_turn by auto
  with fare_category_order [of "Num 15" 0 origin quarter_turn] show ?thesis
    by blast
qed

text \<open>
  Claim C8. For a fixed category and a fixed rate the total fare does not decrease with
  the distance: for \<open>0 \<le> d1 \<le> d2\<close> the total at \<open>d1\<close> is at most the total at \<open>d2\<close>.
\<close>

theorem fare_monotone_in_distance:
  assumes "category_multiplier c = Some m" and "0 \<le> d1" and "d1 \<le> d2"
  shows "jle (totalFare (calculateFare env (Num d1) (Some c)))
             (totalFare (calculateFare env (Num d2) (Some c)))"
proof -
  have "0 \<le> m" using category_multiplier_cases [OF assms(1)] by auto
  with assms(2,3) show ?thesis
    by (intro totalFare_le [OF assms(1) assms(1)] adjusted_fare_mono_dist)
qed

theorem fare_monotone_in_distance_witness:
  "category_multiplier ''premium'' = Some (3 / 2) \<and> (0::real) \<le> 2.37 \<and> (2.37::real) \<le> 5 \<and>
   jle (totalFare (calculateFare (Num 15) (Num 2.37) (Some ''premium'')))
       (totalFare (calculateFare (Num 15) (Num 5) (Some ''premium'')))"
proof -
  have c: "category_multiplier ''premium'' = Some (3 / 2)"
    by (simp add: category_multiplier_def)
  have d: "(0::real) \<le> 2.37" "(2.37::real) \<le> 5" by simp_all
  from fare_monotone_in_distance [OF c d, of "Num 15"] c d show ?thesis
    by blast
qed

lemma unknown_rideType_as_economy:
  assumes "default_rideType rt \<notin> set object_prototype_keys"
      and "default_rideType rt \<noteq> ''premium''" and "default_rideType rt \<noteq> ''luxury''"
  shows "baseFare (calculateFare env d rt) = baseFare (calculateFare env d (Some ''economy'')) \<and>
         gst (calculateFare env d rt) = gst (calculateFare env d (Some ''economy'')) \<and>
         totalFare (calculateFare env d rt) = totalFare (calculateFare env d (Some ''economy''))"
  using assms
  by (simp add: calculateFare_def default_rideType_def rideTypeMultipliers_def js_or_def Let_def)

text \<open>
  Claim C10. A ride type outside economy, premium and luxury is meant to fall back to
  the multiplier 1.0, so that the fare is the economy fare. For a key that the table
  inherits from \<open>Object.prototype\<close>, such as \<open>constructor\<close>, the read yields a function,
  the fallback does not apply, and every amount of the breakdown is \<open>NaN\<close>, while the
  economy fare at the same distance of 10 km is 200, 36 and 236.
\<close>

theorem inherited_key_fare_is_NaN:
  "baseFare (calculateFare (Num 15) (Num 10) (Some ''constructor'')) = NaN \<and>
   gst (calculateFare (Num 15) (Num 10) (Some ''constructor'')) = NaN \<and>
   totalFare (calculateFare (Num 15) (Num 10) (Some ''constructor'')) = NaN \<and>
   baseFare (calculateFare (Num 15) (Num 10) (Some ''economy'')) = Num 200 \<and>
   gst (calculateFare (Num 15) (Num 10) (Some ''economy'')) = Num 36 \<and>
   totalFare (calculateFare (Num 15) (Num 10) (Some ''economy'')) = Num 236"
  by (simp add: calculateFare_def default_rideType_def rideTypeMultipliers_def js_or_def round2_def Let_def object_prototype_keys_def)

section \<open>Properties of the ride life cycle\<close>

lemma history_hook_frame:
  "ride_id (history_hook now orig r) = ride_id r"
  "userId (history_hook now orig r) = userId r"
  "status (history_hook now orig r) = status r"
  "originalDropLocation (history_hook now orig r) = originalDropLocation r"
  "ride_distance (history_hook now orig r) = ride_distance r"
  "fare (history_hook now orig r) = fare r"
  "dropLocation (history_hook now orig r) = dropLocation r"
  "pickupLocation (history_hook now orig r) = pickupLocation r"
  by (simp_all add: history_hook_def split: option.splits)

lemma duration_hook_frame:
  "ride_id (duration_hook orig r) = ride_id r"
  "userId (duration_hook orig r) = userId r"
  "status (duration_hook orig r) = status r"
  "originalDropLocation (duration_hook orig r) = originalDropLocation r"
  "history (duration_hook orig r) = history r"
  "ride_distance (duration_hook orig r) = ride_distance r"
  "fare (duration_hook orig r) = fare r"
  "dropLocation (duration_hook orig r) = dropLocation r"
  "pickupLocation (duration_hook orig r) = pickupLocation r"
  by (simp_all add: duration_hook_def)

lemma run_hooks_frame:
  "ride_id (run_hooks now orig r) = ride_id r"
  "userId (run_hooks now orig r) = userId r"
  "status (run_hooks now orig r) = status r"
  "originalDropLocation (run_hooks now orig r) = originalDropLocation r"
  "ride_distance (run_hooks now orig r) = ride_distance r"
  "fare (run_hooks now orig r) = fare r"
  "dropLocation (run_hooks now orig r) = dropLocation r"
  "pickupLocation (run_hooks now orig r) = pickupLocation r"
  by (simp_all add: run_hooks_def duration_hook_frame history_hook_frame)

lemma run_hooks_history_new:
  "history (run_hooks now None r) =
     history r @ [\<lparr>action = ''created'', timestamp = now, details = ''Ride request created''\<rparr>]"
  by (simp add: run_hooks_def duration_hook_frame history_hook_def)

lemma run_hooks_history_loaded:
  "history (run_hooks now (Some old) r) =
     history r @
       (if status r \<noteq> status old
        then [\<lparr>action = status_name (status r), timestamp = now,
               details = ''Ride status changed to '' @ status_name (status r)\<rparr>]
        else [])"
  by (simp add: run_hooks_def duration_hook_frame history_hook_def)

lemma cancel_mutation_fields:
  "ride_id (cancel_mutation now reason r) = ride_id r"
  "status (cancel_mutation now reason r) = Cancelled"
  "originalDropLocation (cancel_mutation now reason r) = originalDropLocation r"
  "cancellationReason (cancel_mutation now reason r) = Some (reason_or_default reason)"
  "cancelledBy (cancel_mutation now reason r) = Some ''user''"
  "ride_distance (cancel_mutation now reason r) = ride_distance r"
  "fare (cancel_mutation now reason r) = fare r"
  "history (cancel_mutation now reason r) =
     history r @ [\<lparr>action = ''cancelled'', timestamp = now,
                    details = reason_or_default reason\<rparr>]"
  by (simp_all add: cancel_mutation_def Let_def)

text \<open>Cancelling assigns no \<open>Number\<close> path, so its \<open>save\<close> passes validation.\<close>

lemma save_cancel_mutation:
  "save_loaded now r (cancel_mutation now reason r) = Inr (cancel_ride now reason r)"
  by (simp add: save_loaded_def validate_modified_def cancel_mutation_fields cancel_ride_def)

lemma cancel_ride_history:
  "history (cancel_ride now reason r) =
     history r @
       \<lparr>action = ''cancelled'', timestamp = now, details = reason_or_default reason\<rparr> #
       (if status r \<noteq> Cancelled
        then [\<lparr>action = ''cancelled'', timestamp = now,
               details = ''Ride status changed to cancelled''\<rparr>]
        else [])"
  by (simp add: cancel_ride_def run_hooks_history_loaded cancel_mutation_fields)

lemma cancel_ride_frame:
  "ride_id (cancel_ride now reason r) = ride_id r"
  "originalDropLocation (cancel_ride now reason r) = originalDropLocation r"
  "status (cancel_ride now reason r) = Cancelled"
  "cancellationReason (cancel_ride now reason r) = Some (reason_or_default reason)"
  "cancelledBy (cancel_ride now reason r) = Some ''user''"
  by (simp_all add: cancel_ride_def run_hooks_frame cancel_mutation_fields
        run_hooks_def duration_hook_def history_hook_def distance_modified_def)

lemma destination_mutation_fields:
  "ride_id (fst (destination_mutation env now dropL r)) = ride_id r"
  "status (fst (destination_mutation env now dropL r)) = status r"
  "originalDropLocation (fst (destination_mutation env now dropL r)) = originalDropLocation r"
  "pickupLocation (fst (destination_mutation env now dropL r)) = pickupLocation r"
  "dropLocation (fst (destination_mutation env now dropL r)) = dropL"
  "ride_distance (fst (destination_mutation env now dropL r)) =
     location_distance (pickupLocation r) dropL"
  "fare_baseFare (fare (fst (destination_mutation env now dropL r))) =
     baseFare (estimateFare env (pickupLocation r) dropL None)"
  "fare_totalFare (fare (fst (destination_mutation env now dropL r))) =
     totalFare (estimateFare env (pickupLocation r) dropL None)"
  "history (fst (destination_mutation env now dropL r)) =
     history r @ [\<lparr>action = ''destination_updated'', timestamp = now,
                    details = ''Destination updated to '' @ address dropL\<rparr>]"
  by (simp_all add: destination_mutation_def Let_def)

lemma update_ride_fst:
  "fst (update_ride env now dropL r) =
     run_hooks now (Some r) (fst (destination_mutation env now dropL r))"
  by (simp add: update_ride_def case_prod_beta)

lemma update_ride_history:
  "history (fst (update_ride env now dropL r)) =
     history r @ [\<lparr>action = ''destination_updated'', timestamp = now,
                    details = ''Destination updated to '' @ address dropL\<rparr>]"
  by (simp add: update_ride_fst run_hooks_history_loaded destination_mutation_fields)

lemma update_ride_frame:
  "ride_id (fst (update_ride env now dropL r)) = ride_id r"
  "originalDropLocation (fst (update_ride env now dropL r)) = originalDropLocation r"
  "status (fst (update_ride env now dropL r)) = status r"
  "pickupLocation (fst (update_ride env now dropL r)) = pickupLocation r"
  "dropLocation (fst (update_ride env now dropL r)) = dropL"
  "ride_distance (fst (update_ride env now dropL r)) = location_distance (pickupLocation r) dropL"
  "fare_baseFare (fare (fst (update_ride env now dropL r))) =
     baseFare (estimateFare env (pickupLocation r) dropL None)"
  "fare_totalFare (fare (fst (update_ride env now dropL r))) =
     totalFare (estimateFare env (pickupLocation r) dropL None)"
  by (simp_all add: update_ride_fst run_hooks_frame destination_mutation_fields)

text \<open>The update is saved when the new distance and the new fare are numbers: for a
  numeric distance the economy quote is numeric.\<close>

lemma economy_quote_numeric:
  assumes "location_distance p q = Num d"
  shows "baseFare (estimateFare env p q None) \<noteq> NaN"
    and "totalFare (estimateFare env p q None) \<noteq> NaN"
proof -
  have m: "to_number (js_or (rideTypeMultipliers (default_rideType (Some ''economy'')))
             (JNumber 1.0)) = Num 1"
    by (simp add: rideTypeMultipliers_def js_or_def)
  show "baseFare (estimateFare env p q None) \<noteq> NaN"
    by (simp add: estimateFare_sel assms calculateFare_numeric [OF m])
  show "totalFare (estimateFare env p q None) \<noteq> NaN"
    by (simp add: estimateFare_sel assms calculateFare_numeric [OF m])
qed

lemma save_destination_mutation:
  assumes "location_distance (pickupLocation r) dropL = Num d"
  shows "save_loaded now r (fst (destination_mutation env now dropL r)) =
           Inr (fst (update_ride env now dropL r))"
  using economy_quote_numeric [OF assms, of env]
  by (simp add: save_loaded_def validate_modified_def destination_mutation_fields assms
        update_ride_fst)

lemma save_loaded_cases:
  "save_loaded now old r = Inl ServerError \<or> save_loaded now old r = Inr (run_hooks now (Some old) r)"
  by (simp add: save_loaded_def)

lemma set_status_history:
  "history (set_status now s r) =
     history r @
       (if s \<noteq> status r
        then [\<lparr>action = status_name s, timestamp = now,
               details = ''Ride status changed to '' @ status_name s\<rparr>]
        else [])"
  by (simp add: set_status_def run_hooks_history_loaded)

lemma set_status_frame:
  "originalDropLocation (set_status now s r) = originalDropLocation r"
  "status (set_status now s r) = s"
  "pickupLocation (set_status now s r) = pickupLocation r"
  "ride_id (set_status now s r) = ride_id r"
  "userId (set_status now s r) = userId r"
  by (simp_all add: set_status_def run_hooks_frame)

lemma cancel_single:
  "cancel now [r] (ride_id r) (userId r) reason =
     (if status r \<in> set [Pending, Accepted]
      then (Inr (cancel_ride now reason r), [cancel_ride now reason r])
      else (Inl NotFound, [r]))"
  by (simp add: cancel_def write_back_def save_cancel_mutation cancel_ride_frame)

lemma updateDestination_single:
  "updateDestination env now [r] (ride_id r) (userId r) dropL =
     (if \<not> validateDestinationUpdate dropL then (Inl ValidationFailed, [r])
      else if status r \<notin> set [Accepted, Started] then (Inl NotFound, [r])
      else case save_loaded now r (fst (destination_mutation env now dropL r)) of
             Inl e \<Rightarrow> (Inl ServerError, [r])
           | Inr saved \<Rightarrow> (Inr (saved, snd (destination_mutation env now dropL r)),
                          write_back saved [r]))"
  by (simp add: updateDestination_def case_prod_beta)

lemma updateDestination_single_saved:
  assumes "validateDestinationUpdate dropL" and "status r \<in> set [Accepted, Started]"
      and "location_distance (pickupLocation r) dropL = Num d"
  shows "updateDestination env now [r] (ride_id r) (userId r) dropL =
           (Inr (update_ride env now dropL r), [fst (update_ride env now dropL r)])"
proof -
  have "snd (update_ride env now dropL r) = snd (destination_mutation env now dropL r)"
    by (simp add: update_ride_def case_prod_beta)
  then have "update_ride env now dropL r =
               (fst (update_ride env now dropL r), snd (destination_mutation env now dropL r))"
    by (simp add: prod_eq_iff)
  then show ?thesis
    using assms(1,2)
    by (simp add: updateDestination_single save_destination_mutation [OF assms(3)]
          write_back_def update_ride_frame)
qed

lemma apply_update_cases:
  "apply_command env r (now, UpdateDestination dropL) = r \<or>
   apply_command env r (now, UpdateDestination dropL) = fst (update_ride env now dropL r)"
  using save_loaded_cases [of now r "fst (destination_mutation env now dropL r)"]
  by (auto simp: updateDestination_single update_ride_fst)

lemma apply_command_history:
  "\<exists>es. history (apply_command env r (now, c)) = history r @ es"
proof (cases c)
  case (Cancel reason)
  then show ?thesis
    by (simp add: cancel_single cancel_ride_history)
next
  case (UpdateDestination dropL)
  from apply_update_cases [of env r now dropL] show ?thesis
    unfolding UpdateDestination
  proof
    assume "apply_command env r (now, UpdateDestination dropL) = r"
    then show "\<exists>es. history (apply_command env r (now, UpdateDestination dropL)) = history r @ es"
      by simp
  next
    assume "apply_command env r (now, UpdateDestination dropL) =
              fst (update_ride env now dropL r)"
    then show "\<exists>es. history (apply_command env r (now, UpdateDestination dropL)) = history r @ es"
      by (simp add: update_ride_history)
  qed
next
  case (Transition s)
  then show ?thesis
    by (simp add: set_status_history)
qed

lemma apply_command_original:
  "originalDropLocation (apply_command env r (now, c)) = originalDropLocation r"
proof (cases c)
  case (Cancel reason)
  then show ?thesis
    by (simp add: cancel_single cancel_ride_frame)
next
  case (UpdateDestination dropL)
  from apply_update_cases [of env r now dropL] show ?thesis
    unfolding UpdateDestination by (auto simp: update_ride_frame)
next
  case (Transition s)
  then show ?thesis
    by (simp add: set_status_frame)
qed

lemma run_commands_history:
  "\<exists>es. history (run_commands env r cs) = history r @ es"
proof (induction cs arbitrary: r)
  case Nil
  show ?case by (simp add: run_commands_def)
next
  case (Cons c cs)
  obtain now k where c: "c = (now, k)" by (cases c)
  from apply_command_history [of env r now k]
  obtain es where 1: "history (apply_command env r c) = history r @ es"
    unfolding c by blast
  from Cons.IH [of "apply_command env r c"]
  obtain es' where 2: "history (run_commands env (apply_command env r c) cs) =
                         history (apply_command env r c) @ es'"
    by blast
  have "history (run_commands env r (c # cs)) = history r @ (es @ es')"
    using 1 2 by (simp add: run_commands_def)
  then show ?case by blast
qed

lemma run_commands_original:
  "originalDropLocation (run_commands env r cs) = originalDropLocation r"
proof (induction cs arbitrary: r)
  case Nil
  show ?case by (simp add: run_commands_def)
next
  case (Cons c cs)
  obtain now k where c: "c = (now, k)" by (cases c)
  have "originalDropLocation (run_commands env r (c # cs)) =
        originalDropLocation (run_commands env (apply_command env r c) cs)"
    by (simp add: run_commands_def)
  also have "\<dots> = originalDropLocation (apply_command env r c)"
    by (rule Cons.IH)
  also have "\<dots> = originalDropLocation r"
    unfolding c by (rule apply_command_original)
  finally show ?case .
qed

lemma build_ride_fields:
  "history (fst (build_ride env new_id uid req)) = []"
  "originalDropLocation (fst (build_ride env new_id uid req)) = Some (req_dropLocation req)"
  "status (fst (build_ride env new_id uid req)) = Pending"
  "userId (fst (build_ride env new_id uid req)) = uid"
  "ride_id (fst (build_ride env new_id uid req)) = new_id"
  "ride_notes (fst (build_ride env new_id uid req)) = req_notes req"
  "pickupLocation (fst (build_ride env new_id uid req)) = req_pickupLocation req"
  "ride_distance (fst (build_ride env new_id uid req)) =
     location_distance (req_pickupLocation req) (req_dropLocation req)"
  "fare_baseFare (fare (fst (build_ride env new_id uid req))) =
     baseFare (estimateFare env (req_pickupLocation req) (req_dropLocation req)
                 (Some (default_rideType (req_rideType req))))"
  "fare_totalFare (fare (fst (build_ride env new_id uid req))) =
     totalFare (estimateFare env (req_pickupLocation req) (req_dropLocation req)
                  (Some (default_rideType (req_rideType req))))"
  by (simp_all add: build_ride_def new_ride_def Let_def)

text \<open>A booking either leaves the collection as it is or appends the new ride, and
  answers with a ride only in the second case.\<close>

lemma book_cases:
  "(snd (book env now new_id store uid req) = store \<and>
    (\<exists>e. fst (book env now new_id store uid req) = Inl e)) \<or>
   (find (\<lambda>r. userId r = uid \<and> is_active r) store = None \<and>
    book env now new_id store uid req =
      (Inr (run_hooks now None (fst (build_ride env new_id uid req)),
            snd (build_ride env new_id uid req)),
       store @ [run_hooks now None (fst (build_ride env new_id uid req))]))"
  by (simp add: book_def save_new_def case_prod_beta split: option.splits)

lemma book_served:
  assumes "book env now new_id store uid req = (Inr (r, f), store')"
  shows "r = run_hooks now None (fst (build_ride env new_id uid req))"
    and "store' = store @ [r]"
  using book_cases [of env now new_id store uid req] assms by auto

lemma find_SomeD: "find P xs = Some x \<Longrightarrow> x \<in> set xs \<and> P x"
  by (induction xs) (auto split: if_splits)

lemma find_None_set: "find P xs = None \<Longrightarrow> x \<in> set xs \<Longrightarrow> \<not> P x"
  by (simp add: find_None_iff)

lemma new_ride_active:
  "is_active (run_hooks now None (fst (build_ride env new_id uid req)))"
  by (simp add: is_active_def run_hooks_frame build_ride_fields)

lemma book_keeps_one_active:
  assumes "one_active_per_rider store"
  shows "one_active_per_rider (snd (book env now new_id store uid req))"
  using book_cases [of env now new_id store uid req]
proof
  assume "snd (book env now new_id store uid req) = store \<and>
          (\<exists>e. fst (book env now new_id store uid req) = Inl e)"
  with assms show ?thesis by simp
next
  assume a: "find (\<lambda>r. userId r = uid \<and> is_active r) store = None \<and>
    book env now new_id store uid req =
      (Inr (run_hooks now None (fst (build_ride env new_id uid req)),
            snd (build_ride env new_id uid req)),
       store @ [run_hooks now None (fst (build_ride env new_id uid req))])"
  then have none: "find (\<lambda>r. userId r = uid \<and> is_active r) store = None"
    by simp
  have "uid \<notin> set (map userId (filter is_active store))"
  proof
    assume "uid \<in> set (map userId (filter is_active store))"
    then obtain x where "x \<in> set store" "is_active x" "userId x = uid" by auto
    with find_None_set [OF none, of x] show False by simp
  qed
  with assms a show ?thesis
    by (simp add: one_active_per_rider_def new_ride_active run_hooks_frame build_ride_fields)
qed

lemma book_conflict:
  assumes "a \<in> set store" "userId a = uid" "is_active a"
  shows "snd (book env now new_id store uid req) = store"
    and "validateRideBooking req \<Longrightarrow>
           \<exists>b\<in>set store. userId b = uid \<and> is_active b \<and>
             fst (book env now new_id store uid req) = Inl (ActiveRideConflict (ride_id b))"
    and "\<not> validateRideBooking req \<Longrightarrow>
           fst (book env now new_id store uid req) = Inl ValidationFailed"
proof -
  have "find (\<lambda>r. userId r = uid \<and> is_active r) store \<noteq> None"
    using assms by (auto simp: find_None_iff)
  then obtain b where b: "find (\<lambda>r. userId r = uid \<and> is_active r) store = Some b"
    by blast
  show "snd (book env now new_id store uid req) = store"
    by (simp add: book_def b)
  show "\<not> validateRideBooking req \<Longrightarrow>
           fst (book env now new_id store uid req) = Inl ValidationFailed"
    by (simp add: book_def)
  show "\<exists>b\<in>set store. userId b = uid \<and> is_active b \<and>
             fst (book env now new_id store uid req) = Inl (ActiveRideConflict (ride_id b))"
    if "validateRideBooking req"
    using find_SomeD [OF b] that by (intro bexI [of _ b]) (simp_all add: book_def b)
qed

text \<open>
  Claim C5. When the rider already has a ride that is pending, accepted or started, a
  booking creates no ride: the collection is unchanged, and a request that passes the
  validators is answered with the conflict naming an active ride of that rider. Booking
  preserves the invariant that no rider has two active rides.
\<close>

theorem book_rejects_second_active_ride:
  assumes "one_active_per_rider store"
  shows "one_active_per_rider (snd (book env now new_id store uid req)) \<and>
         ((\<exists>a\<in>set store. userId a = uid \<and> is_active a) \<longrightarrow>
            snd (book env now new_id store uid req) = store \<and>
            (validateRideBooking req \<longrightarrow>
               (\<exists>b\<in>set store. userId b = uid \<and> is_active b \<and>
                  fst (book env now new_id store uid req) =
                    Inl (ActiveRideConflict (ride_id b)))))"
  using book_keeps_one_active [OF assms] book_conflict(1,2) by blast

lemma valid_samples:
  "valid_location origin" "valid_location quarter_turn" "valid_location north_pole"
  "valid_location bandra" "valid_location andheri"
  by (simp_all add: valid_location_def origin_def quarter_turn_def north_pole_def
        bandra_def andheri_def)

lemma luxury_request_valid: "validateRideBooking luxury_request"
  by (simp add: validateRideBooking_def luxury_request_def valid_samples)

theorem book_rejects_second_active_ride_witness:
  "one_active_per_rider [pending_ride] \<and>
   pending_ride \<in> set [pending_ride] \<and> userId pending_ride = 7 \<and> is_active pending_ride \<and>
   validateRideBooking luxury_request \<and>
   one_active_per_rider (snd (book NaN 20 2 [pending_ride] 7 luxury_request)) \<and>
   book NaN 20 2 [pending_ride] 7 luxury_request = (Inl (ActiveRideConflict 1), [pending_ride])"
proof -
  have inv: "one_active_per_rider [pending_ride]"
    by (simp add: one_active_per_rider_def)
  have act: "userId pending_ride = 7" "is_active pending_ride" "ride_id pending_ride = 1"
    by (simp_all add: pending_ride_def is_active_def)
  from book_rejects_second_active_ride [OF inv, of NaN 20 2 7 luxury_request]
  have "one_active_per_rider (snd (book NaN 20 2 [pending_ride] 7 luxury_request))"
       "snd (book NaN 20 2 [pending_ride] 7 luxury_request) = [pending_ride]"
       "fst (book NaN 20 2 [pending_ride] 7 luxury_request) = Inl (ActiveRideConflict 1)"
    using act luxury_request_valid by auto
  then show ?thesis
    using inv act luxury_request_valid by (simp add: prod_eq_iff)
qed

text \<open>The sample luxury booking is served: the distance from the origin a quarter turn
  east is a number, and so are the fares.\<close>

lemma luxury_booking_served:
  "book NaN 10 1 [] 7 luxury_request =
     (Inr (booked_luxury, snd (build_ride NaN 1 7 luxury_request)), [booked_luxury])"
proof -
  obtain d where d: "location_distance origin quarter_turn = Num d"
    using distance_origin_quarter_turn by blast
  have m: "to_number (js_or (rideTypeMultipliers (default_rideType (Some ''luxury'')))
             (JNumber 1.0)) = Num 2"
    by (simp add: rideTypeMultipliers_def js_or_def)
  have "validate_new (fst (build_ride NaN 1 7 luxury_request))"
    by (simp add: validate_new_def build_ride_fields)
       (simp add: luxury_request_def d estimateFare_sel calculateFare_numeric [OF m])
  then show ?thesis
    by (simp add: book_def luxury_request_valid save_new_def booked_luxury_def case_prod_beta)
qed

text \<open>
  Claim C4. A booking that is served creates a ride whose history is exactly one entry,
  with action \<open>created\<close>; whatever commands follow, the history only grows at its end
  and so is never empty.
\<close>

theorem created_ride_history:
  assumes "book env now new_id store uid req = (Inr (r, f), store')"
  shows "store' = store @ [r] \<and>
         history r = [\<lparr>action = ''created'', timestamp = now,
                        details = ''Ride request created''\<rparr>] \<and>
         (\<forall>cs. history (run_commands env r cs) \<noteq> [] \<and>
               (\<exists>es. history (run_commands env r cs) = history r @ es))"
proof -
  from book_served [OF assms]
  have r: "r = run_hooks now None (fst (build_ride env new_id uid req))"
    and s: "store' = store @ [r]" by simp_all
  have h: "history r = [\<lparr>action = ''created'', timestamp = now,
                          details = ''Ride request created''\<rparr>]"
    by (simp add: r run_hooks_history_new build_ride_fields)
  have "history (run_commands env r cs) \<noteq> [] \<and>
        (\<exists>es. history (run_commands env r cs) = history r @ es)" for cs
    using run_commands_history [of env r cs] h by auto
  with h s show ?thesis by blast
qed

theorem created_ride_history_witness:
  "book NaN 10 1 [] 7 luxury_request =
     (Inr (booked_luxury, snd (build_ride NaN 1 7 luxury_request)), [booked_luxury]) \<and>
   history booked_luxury =
     [\<lparr>action = ''created'', timestamp = 10, details = ''Ride request created''\<rparr>] \<and>
   history (run_commands NaN booked_luxury
              [(11, Transition Accepted), (12, UpdateDestination north_pole)]) \<noteq> []"
  using created_ride_history [OF luxury_booking_served] luxury_booking_served by simp

text \<open>
  Claim C6. \<open>originalDropLocation\<close> of a booked ride is the drop location of the
  request, and stays so after every sequence of later commands, destination updates in
  particular, while \<open>dropLocation\<close> follows the updates.
\<close>

theorem originalDropLocation_never_reassigned:
  assumes "book env now new_id store uid req = (Inr (r, f), store')"
  shows "originalDropLocation r = Some (req_dropLocation req) \<and>
         (\<forall>cs. originalDropLocation (run_commands env r cs) = Some (req_dropLocation req))"
proof -
  from book_served(1) [OF assms]
  have "originalDropLocation r = Some (req_dropLocation req)"
    by (simp add: run_hooks_frame build_ride_fields)
  then show ?thesis by (simp add: run_commands_original)
qed

lemma booked_luxury_fields:
  "ride_id booked_luxury = 1" "userId booked_luxury = 7" "status booked_luxury = Pending"
  "pickupLocation booked_luxury = origin"
  by (simp_all add: booked_luxury_def run_hooks_frame build_ride_fields)
     (simp add: luxury_request_def)

lemma accepted_luxury_fields:
  "ride_id accepted_luxury = 1" "userId accepted_luxury = 7" "status accepted_luxury = Accepted"
  "pickupLocation accepted_luxury = origin"
  by (simp_all add: accepted_luxury_def set_status_frame booked_luxury_fields)

theorem originalDropLocation_never_reassigned_witness:
  "book NaN 10 1 [] 7 luxury_request =
     (Inr (booked_luxury, snd (build_ride NaN 1 7 luxury_request)), [booked_luxury]) \<and>
   originalDropLocation
     (run_commands NaN booked_luxury
        [(11, Transition Accepted), (12, UpdateDestination north_pole),
         (13, UpdateDestination bandra)]) = Some quarter_turn \<and>
   dropLocation
     (run_commands NaN booked_luxury
        [(11, Transition Accepted), (12, UpdateDestination north_pole),
         (13, UpdateDestination bandra)]) = bandra"
proof -
  let ?a = "set_status 11 Accepted booked_luxury"
  let ?n = "fst (update_ride NaN 12 north_pole ?a)"
  obtain d1 where d1: "location_distance (pickupLocation ?a) north_pole = Num d1"
    using distance_origin_north_pole by (auto simp: set_status_frame booked_luxury_fields)
  have "validateCoordinates (latitude (coords origin)) (longitude (coords origin))"
       "validateCoordinates (latitude (coords bandra)) (longitude (coords bandra))"
    by (simp_all add: validateCoordinates_def origin_def bandra_def)
  from location_distance_num [OF this]
  obtain d2 where d2: "location_distance (pickupLocation ?n) bandra = Num d2"
    by (auto simp: update_ride_frame set_status_frame booked_luxury_fields)
  have u1: "apply_command NaN ?a (12, UpdateDestination north_pole) = ?n"
    using updateDestination_single_saved [OF _ _ d1, of NaN 12]
    by (simp add: validateDestinationUpdate_def valid_samples set_status_frame case_prod_beta)
  have u2: "apply_command NaN ?n (13, UpdateDestination bandra) =
              fst (update_ride NaN 13 bandra ?n)"
    using updateDestination_single_saved [OF _ _ d2, of NaN 13]
    by (simp add: validateDestinationUpdate_def valid_samples update_ride_frame
          set_status_frame case_prod_beta)
  have d: "dropLocation
     (run_commands NaN booked_luxury
        [(11, Transition Accepted), (12, UpdateDestination north_pole),
         (13, UpdateDestination bandra)]) = bandra"
  proof -
    have t: "apply_command NaN booked_luxury (11, Transition Accepted) = ?a"
      by simp
    show ?thesis
      unfolding run_commands_def foldl.simps t u1 u2
      by (simp add: update_ride_frame)
  qed
  from originalDropLocation_never_reassigned [OF luxury_booking_served]
       luxury_booking_served d
  show ?thesis
    by (simp add: luxury_request_def)
qed

lemma cancel_rejected:
  assumes "\<forall>r\<in>set store. ride_id r = rid \<and> userId r = uid \<longrightarrow>
             status r \<in> set [Started, Completed, Cancelled]"
  shows "cancel now store rid uid reason = (Inl NotFound, store)"
proof -
  have "find (\<lambda>r. ride_id r = rid \<and> userId r = uid \<and> status r \<in> set [Pending, Accepted]) store = None"
    using assms by (auto simp: find_None_iff)
  then show ?thesis by (simp add: cancel_def)
qed

lemma updateDestination_rejected:
  assumes "\<forall>r\<in>set store. ride_id r = rid \<and> userId r = uid \<longrightarrow>
             status r \<in> set [Pending, Completed, Cancelled]"
  shows "updateDestination env now store rid uid dropL =
           (Inl (if validateDestinationUpdate dropL then NotFound else ValidationFailed), store)"
proof -
  have "find (\<lambda>r. ride_id r = rid \<and> userId r = uid \<and> status r \<in> set [Accepted, Started]) store = None"
    using assms by (auto simp: find_None_iff)
  then show ?thesis by (simp add: updateDestination_def)
qed

text \<open>
  Claim C1. Cancelling a pending or accepted ride is to append exactly one history
  entry. The route pushes an entry and then, because \<open>status\<close> was modified, the
  pre-save hook pushes a second one: cancelling the pending sample ride leaves three
  entries where there was one. (A ride that is started, completed or cancelled is not
  found by the route and nothing changes: \<open>cancel_rejected\<close>.)
\<close>

theorem cancel_appends_two_history_entries:
  "cancel 20 [pending_ride] 1 7 (Some ''Change of plans'') =
     (Inr (cancel_ride 20 (Some ''Change of plans'') pending_ride),
      [cancel_ride 20 (Some ''Change of plans'') pending_ride]) \<and>
   status (cancel_ride 20 (Some ''Change of plans'') pending_ride) = Cancelled \<and>
   history (cancel_ride 20 (Some ''Change of plans'') pending_ride) =
     [\<lparr>action = ''created'', timestamp = 10, details = ''Ride request created''\<rparr>,
      \<lparr>action = ''cancelled'', timestamp = 20, details = ''Change of plans''\<rparr>,
      \<lparr>action = ''cancelled'', timestamp = 20, details = ''Ride status changed to cancelled''\<rparr>]"
proof -
  have p: "ride_id pending_ride = 1" "userId pending_ride = 7" "status pending_ride = Pending"
    "history pending_ride =
       [\<lparr>action = ''created'', timestamp = 10, details = ''Ride request created''\<rparr>]"
    by (simp_all add: pending_ride_def)
  show ?thesis
    using cancel_single [of 20 pending_ride "Some ''Change of plans''"]
    by (simp add: p cancel_ride_history cancel_ride_frame reason_or_default_def)
qed

lemma round2_real_strict:
  assumes "x + 1 / 100 \<le> y"
  shows "round2_real x < round2_real y"
proof -
  have "x * 100 + 1 / 2 + 1 \<le> y * 100 + 1 / 2" using assms by simp
  then have "\<lfloor>x * 100 + 1 / 2 + 1\<rfloor> \<le> \<lfloor>y * 100 + 1 / 2\<rfloor>" by (rule floor_mono)
  then have "\<lfloor>x * 100 + 1 / 2\<rfloor> < \<lfloor>y * 100 + 1 / 2\<rfloor>" by linarith
  then show ?thesis
    unfolding round2_real_def by (simp add: divide_strict_right_mono)
qed

lemma economy_below_luxury:
  assumes "2 \<le> d"
  shows "jlt (totalFare (calculateFare NaN (Num d) (Some ''economy'')))
             (totalFare (calculateFare NaN (Num d) (Some ''luxury'')))"
proof -
  have e: "to_number (js_or (rideTypeMultipliers (default_rideType (Some ''economy''))) (JNumber 1.0)) = Num 1"
   and l: "to_number (js_or (rideTypeMultipliers (default_rideType (Some ''luxury''))) (JNumber 1.0)) = Num 2"
    by (simp_all add: default_rideType_def rideTypeMultipliers_def js_or_def)
  have ae: "adjusted_fare d 15 1 = 50 + d * 15" and al: "adjusted_fare d 15 2 = 50 + d * 30"
    using assms by (simp_all add: adjusted_fare_def max_def)
  have "(50 + d * 15 + (50 + d * 15) * 0.18) + 1 / 100 \<le> 50 + d * 30 + (50 + d * 30) * 0.18"
    using assms by (simp add: field_simps)
  then have "round2_real (50 + d * 15 + (50 + d * 15) * 0.18)
           < round2_real (50 + d * 30 + (50 + d * 30) * 0.18)"
    by (rule round2_real_strict)
  then show ?thesis
    unfolding totalFare_numeric [OF e] totalFare_numeric [OF l]
    by (simp only: farePerKm_of.simps ae al jlt.simps)
qed

text \<open>
  Claim C2. A destination update is to re-quote the fare for the category of the ride.
  The route calls \<open>estimateFare\<close> without a ride type, so the quote is the economy one:
  the ride booked as luxury from the origin, once accepted and redirected to the North
  Pole, carries the economy total, which is below the luxury total for that trip.
\<close>

theorem updateDestination_requotes_as_economy:
  "book NaN 10 1 [] 7 luxury_request =
     (Inr (booked_luxury, snd (build_ride NaN 1 7 luxury_request)), [booked_luxury]) \<and>
   fare_totalFare (fare booked_luxury) =
     totalFare (estimateFare NaN origin quarter_turn (Some ''luxury'')) \<and>
   updateDestination NaN 12 [accepted_luxury] 1 7 north_pole =
     (Inr (update_ride NaN 12 north_pole accepted_luxury),
      [fst (update_ride NaN 12 north_pole accepted_luxury)]) \<and>
   fare_totalFare (fare (fst (update_ride NaN 12 north_pole accepted_luxury))) =
     totalFare (estimateFare NaN origin north_pole (Some ''economy'')) \<and>
   jlt (fare_totalFare (fare (fst (update_ride NaN 12 north_pole accepted_luxury))))
       (totalFare (estimateFare NaN origin north_pole (Some ''luxury'')))"
proof -
  have f0: "fare_totalFare (fare booked_luxury) =
              totalFare (estimateFare NaN origin quarter_turn (Some ''luxury''))"
    by (simp add: booked_luxury_def run_hooks_frame build_ride_fields)
       (simp add: luxury_request_def)
  obtain d where d: "location_distance origin north_pole = Num d" "6371 \<le> d"
    using distance_origin_north_pole by blast
  have u: "updateDestination NaN 12 [accepted_luxury] 1 7 north_pole =
           (Inr (update_ride NaN 12 north_pole accepted_luxury),
            [fst (update_ride NaN 12 north_pole accepted_luxury)])"
    using updateDestination_single_saved [of north_pole accepted_luxury d NaN 12] d(1)
    by (simp add: accepted_luxury_fields validateDestinationUpdate_def valid_samples)
  have f1: "fare_totalFare (fare (fst (update_ride NaN 12 north_pole accepted_luxury))) =
              totalFare (estimateFare NaN origin north_pole (Some ''economy''))"
    by (simp add: update_ride_frame accepted_luxury_fields estimateFare_sel)
  have lt: "jlt (totalFare (estimateFare NaN origin north_pole (Some ''economy'')))
                (totalFare (estimateFare NaN origin north_pole (Some ''luxury'')))"
    using economy_below_luxury [of d] d by (simp add: estimateFare_sel)
  show ?thesis
    using luxury_booking_served f0 u lt unfolding f1 by simp
qed

end
